theory Spec2Isabelle
  imports Main "HOL-Library.Word"
begin

unbundle bit_operations_syntax

section \<open>Data model of package deskauth (oauth.go)\<close>

text \<open>
  The embedding follows oauth.go function by function. Go's multiple return values
  \<open>(*T, error)\<close> are pairs of options (\<open>None\<close> is \<open>nil\<close>), so that a function
  returning both \<open>nil\<close> or both non-\<open>nil\<close> is expressible. A call either returns,
  panics, or blocks for ever (\<open>outcome\<close>). Everything outside the repository
  (the oauth2 library, encoding/json, the operating system, the network, the
  scheduler) is an explicit parameter collected in the record \<open>env\<close>, or part of
  the mutable \<open>world\<close>.
\<close>

type_synonym byte = "8 word"

datatype fault = EACCES | EISDIR | ENOTDIR | EIO

text \<open>
  Go error values. \<open>ErrNotExist\<close> is the sentinel \<open>fs.ErrNotExist\<close> (what ENOENT
  matches), \<open>WrapError m e\<close> is \<open>fmt.Errorf("m: %w", e)\<close>, \<open>PathError\<close> is
  \<open>*fs.PathError\<close>; both unwrap to their last component.
\<close>

datatype error =
    ErrNotExist
  | Errno fault
  | ErrorString string
  | WrapError string error
  | PathError string string error

fun errors_Is :: "error \<Rightarrow> error \<Rightarrow> bool" where
  "errors_Is (WrapError m e) t = (WrapError m e = t \<or> errors_Is e t)"
| "errors_Is (PathError opn p e) t = (PathError opn p e = t \<or> errors_Is e t)"
| "errors_Is e t = (e = t)"

datatype 'a outcome = Return 'a | Panic string | Blocked

record Token =
  AccessToken :: string
  TokenType :: string
  RefreshToken :: string
  Expiry :: int

record Config =
  ClientID :: string
  ClientSecret :: string
  AuthURL :: string
  TokenURL :: string
  RedirectURL :: string
  Scopes :: "string list"

text \<open>
  \<open>Auth.Config\<close> is a pointer \<open>*oauth2.Config\<close>: an address into \<open>heap\<close>, or
  \<open>None\<close> for \<open>nil\<close>. The file system maps a path to what is there.
\<close>

datatype fsnode = Regular "byte list" | Directory | Faulty fault

record world =
  heap :: "nat \<Rightarrow> Config"
  files :: "string \<rightharpoonup> fsnode"
  entropy :: "byte list"

text \<open>The value sent over the channel \<open>ch\<close> of tokenInteractive (lines 164-167).\<close>

record resp =
  code :: string
  err :: "error option"

record Request =
  URL_Path :: string
  URL_Query :: "(string \<times> string) list"

datatype response =
    HttpError nat string
  | HttpRedirect nat string
  | HttpOK string

text \<open>
  What happens while the server runs: a request is handled, \<open>s.Serve\<close> returns, the
  orchestrator's \<open>select\<close> takes the channel case, or it takes \<open>ctx.Done()\<close> (with
  the value of \<open>ctx.Err()\<close>). The list is the schedule chosen by the environment.
\<close>

datatype event =
    Incoming Request
  | ServeReturned error
  | SelectRecv
  | SelectDone error

text \<open>Observable effects, in the order the run performs them.\<close>

datatype effect =
    NetListen string
  | ServeStarted
  | Shown string
  | Replied response
  | Received resp
  | Exchanged string
  | ServerShutdown
  | LnClose

record env =
  AuthCodeURL :: "Config \<Rightarrow> string \<Rightarrow> string"
  Exchange :: "Config \<Rightarrow> string \<Rightarrow> Token option \<times> error option"
  json_Marshal :: "Token \<Rightarrow> error + byte list"
  json_Unmarshal :: "byte list \<Rightarrow> error + Token"
  net_Listen :: "error + string"
  incoming :: "event list"

record Storage =
  Read :: "world \<Rightarrow> Token option \<times> error option"
  Write :: "Token \<Rightarrow> world \<Rightarrow> error option \<times> world"

record Auth =
  Config :: "nat option"
  Storage :: "Storage option"
  ShowURL :: "(string \<Rightarrow> error option) option"

text \<open>The token source built by the library's \<open>Config.TokenSource(ctx, tok)\<close>: never nil.\<close>

datatype TokenSource = Config_TokenSource "nat option" Token

section \<open>PrintURL and the file store (lines 45-110)\<close>

definition PrintURL :: "string \<Rightarrow> error option" where
  "PrintURL url = None"

text \<open>
  The operating system resolves a path directory by directory. \<open>ancestors\<close> lists
  the directories on the way to a path (paths are taken in the form \<open>filepath.Clean\<close>
  gives them; a relative path starts in the working directory, which exists), and
  \<open>walk\<close> stops at the first one that cannot be entered: a missing one (ENOENT), a
  regular file (ENOTDIR), one that fails for another reason.
\<close>

fun ancestors_from :: "string \<Rightarrow> string \<Rightarrow> string list" where
  "ancestors_from pre [] = []"
| "ancestors_from pre (c # cs) =
     (if c = CHR ''/'' \<and> pre \<noteq> [] then [pre] else []) @ ancestors_from (pre @ [c]) cs"

definition ancestors :: "string \<Rightarrow> string list" where
  "ancestors p = ancestors_from [] p"

fun walk :: "(string \<rightharpoonup> fsnode) \<Rightarrow> string list \<Rightarrow> error option" where
  "walk fs [] = None"
| "walk fs (d # ds) =
     (case fs d of
        None \<Rightarrow> Some ErrNotExist
      | Some Directory \<Rightarrow> walk fs ds
      | Some (Regular bs) \<Rightarrow> Some (Errno ENOTDIR)
      | Some (Faulty f) \<Rightarrow> Some (Errno f))"

text \<open>
  \<open>os.ReadFile\<close>: the empty name and a path with a missing component give a PathError
  wrapping ENOENT, a path through a regular file ENOTDIR, a directory or a faulty node
  another errno, a regular file its bytes.
\<close>

definition os_ReadFile :: "world \<Rightarrow> string \<Rightarrow> byte list \<times> error option" where
  "os_ReadFile w name =
     (if name = [] then ([], Some (PathError ''open'' name ErrNotExist))
      else
        case walk (files w) (ancestors name) of
          Some e \<Rightarrow> ([], Some (PathError ''open'' name e))
        | None \<Rightarrow>
            (case files w name of
               None \<Rightarrow> ([], Some (PathError ''open'' name ErrNotExist))
             | Some (Regular bs) \<Rightarrow> (bs, None)
             | Some Directory \<Rightarrow> ([], Some (PathError ''read'' name (Errno EISDIR)))
             | Some (Faulty f) \<Rightarrow> ([], Some (PathError ''open'' name (Errno f)))))"

definition fileStore_Read :: "env \<Rightarrow> string \<Rightarrow> world \<Rightarrow> Token option \<times> error option" where
  "fileStore_Read ev f w =
     (case os_ReadFile w f of
        (bs, Some e) \<Rightarrow>
          if errors_Is e ErrNotExist then (None, None) else (None, Some e)
      | (bs, None) \<Rightarrow>
          (case json_Unmarshal ev bs of
             Inl e \<Rightarrow> (None, Some (WrapError ''unmarshaling auth config'' e))
           | Inr ret \<Rightarrow> (Some ret, None)))"

text \<open>
  \<open>filepath.Dir\<close> of a clean path. \<open>os.MkdirAll\<close> creates the directories on the
  way and the directory itself, in that order, and keeps what it created when a later
  step fails; the working directory and the root exist. \<open>os.WriteFile\<close> resolves the
  path as \<open>os.ReadFile\<close> does and creates or replaces the file. The verb \<open>%q\<close>
  puts the file name in double quotes (its escaping is left out).
\<close>

definition filepath_Dir :: "string \<Rightarrow> string" where
  "filepath_Dir p =
     (if CHR ''/'' \<notin> set p then ''.''
      else let d = rev (tl (dropWhile (\<lambda>c. c \<noteq> CHR ''/'') (rev p)))
           in if d = [] then ''/'' else d)"

fun mkdirs :: "(string \<rightharpoonup> fsnode) \<Rightarrow> string list \<Rightarrow> error option \<times> (string \<rightharpoonup> fsnode)" where
  "mkdirs fs [] = (None, fs)"
| "mkdirs fs (d # ds) =
     (case fs d of
        None \<Rightarrow> mkdirs (fs(d \<mapsto> Directory)) ds
      | Some Directory \<Rightarrow> mkdirs fs ds
      | Some (Regular bs) \<Rightarrow> (Some (PathError ''mkdir'' d (Errno ENOTDIR)), fs)
      | Some (Faulty f) \<Rightarrow> (Some (PathError ''mkdir'' d (Errno f)), fs))"

definition os_MkdirAll :: "string \<Rightarrow> world \<Rightarrow> error option \<times> world" where
  "os_MkdirAll dir w =
     (if dir = [] then (Some (PathError ''mkdir'' dir ErrNotExist), w)
      else if dir = ''.'' \<or> dir = ''/'' then (None, w)
      else case mkdirs (files w) (ancestors dir @ [dir]) of
             (e, fs) \<Rightarrow> (e, w\<lparr>files := fs\<rparr>))"

definition os_WriteFile :: "string \<Rightarrow> byte list \<Rightarrow> world \<Rightarrow> error option \<times> world" where
  "os_WriteFile name bs w =
     (if name = [] then (Some (PathError ''open'' name ErrNotExist), w)
      else
        case walk (files w) (ancestors name) of
          Some e \<Rightarrow> (Some (PathError ''open'' name e), w)
        | None \<Rightarrow>
            (case files w name of
               Some Directory \<Rightarrow> (Some (PathError ''open'' name (Errno EISDIR)), w)
             | Some (Faulty f) \<Rightarrow> (Some (PathError ''open'' name (Errno f)), w)
             | _ \<Rightarrow> (None, w\<lparr>files := (files w)(name \<mapsto> Regular bs)\<rparr>)))"

definition fileStore_Write :: "env \<Rightarrow> string \<Rightarrow> Token \<Rightarrow> world \<Rightarrow> error option \<times> world" where
  "fileStore_Write ev f tok w =
     (case json_Marshal ev tok of
        Inl e \<Rightarrow> (Some (WrapError ''marshaling OAuth token'' e), w)
      | Inr bs \<Rightarrow>
          (case os_MkdirAll (filepath_Dir f) w of
             (Some e, w1) \<Rightarrow>
               (Some (WrapError (''creating parent dirs for '' @ [CHR 0x22] @ f @ [CHR 0x22]) e), w1)
           | (None, w1) \<Rightarrow>
               (case os_WriteFile f bs w1 of
                  (Some e, w2) \<Rightarrow> (Some (WrapError ''saving OAuth token'' e), w2)
                | (None, w2) \<Rightarrow> (None, w2))))"

definition FileStore :: "env \<Rightarrow> string \<Rightarrow> Storage" where
  "FileStore ev filename = \<lparr>Read = fileStore_Read ev filename, Write = fileStore_Write ev filename\<rparr>"

section \<open>randhex (lines 226-232)\<close>

definition hextable :: string where
  "hextable = ''0123456789abcdef''"

definition hex_EncodeToString :: "byte list \<Rightarrow> string" where
  "hex_EncodeToString bs =
     concat (map (\<lambda>v. [hextable ! unat (drop_bit 4 v), hextable ! unat (v AND 0x0f)]) bs)"

text \<open>
  \<open>io.ReadFull(crand.Reader, bs[:])\<close> takes eight bytes of the random source; when
  fewer are left the read fails and randhex panics (\<open>None\<close>).
\<close>

definition randhex :: "world \<Rightarrow> string option \<times> world" where
  "randhex w =
     (if length (entropy w) < 8 then (None, w\<lparr>entropy := []\<rparr>)
      else (Some (hex_EncodeToString (take 8 (entropy w))), w\<lparr>entropy := drop 8 (entropy w)\<rparr>))"

section \<open>The callback handler and the channel (lines 164-208)\<close>

definition Values_Get :: "(string \<times> string) list \<Rightarrow> string \<Rightarrow> string" where
  "Values_Get q k = (case map_of q k of None \<Rightarrow> [] | Some v \<Rightarrow> v)"

text \<open>
  \<open>select { case ch <- rsp: default: }\<close> on the channel of capacity one: the value
  is stored when the buffer is empty and dropped otherwise.
\<close>

definition try_send :: "resp option \<Rightarrow> resp \<Rightarrow> resp option" where
  "try_send ch rsp = (case ch of None \<Rightarrow> Some rsp | Some old \<Rightarrow> Some old)"

text \<open>The local variables of one run of tokenInteractive that the handler closes over.\<close>

record flow =
  path :: string
  ln :: string
  cfg :: nat
  state :: string
  startURL :: string

definition success_page :: string where
  "success_page = ''<html><body><h2>Authentication successful, you may close this window</h2></body></html>''"

text \<open>Lines 185-192: the value the handler sends for a request that passed the checks.\<close>

definition callback_resp :: "Request \<Rightarrow> resp" where
  "callback_resp r =
     (let e = Values_Get (URL_Query r) ''error'';
          c = Values_Get (URL_Query r) ''code''
      in if e \<noteq> [] then
           \<lparr>code = [], err = Some (ErrorString (''OAuth server returned error: '' @ e))\<rparr>
         else if c \<noteq> [] then \<lparr>code = c, err = None\<rparr>
         else \<lparr>code = [], err = Some (ErrorString
                ''OAuth server returned invalid response, no code or error'')\<rparr>)"

definition handler :: "flow \<Rightarrow> Request \<Rightarrow> resp option \<Rightarrow> response \<times> resp option" where
  "handler fl r ch =
     (if URL_Path r \<noteq> path fl then (HttpError 404 ''not found'', ch)
      else
        let st = Values_Get (URL_Query r) ''state'' in
        if st = [] then (HttpRedirect 302 (startURL fl), ch)
        else if st \<noteq> state fl then (HttpError 412 ''bad state'', ch)
        else (HttpOK success_page, try_send ch (callback_resp r)))"

section \<open>Waiting for the callback (lines 193-196, 202-208, 215-223)\<close>

datatype selected = Recv resp | Done error | Stuck

text \<open>
  After the orchestrator has left its \<open>select\<close> the server keeps answering until it is
  shut down: the handler still runs against the channel, nobody receives any more.
\<close>

fun serve_rest :: "(Request \<Rightarrow> resp option \<Rightarrow> response \<times> resp option) \<Rightarrow> resp option \<Rightarrow>
    event list \<Rightarrow> effect list" where
  "serve_rest h ch [] = []"
| "serve_rest h ch (Incoming r # es) = Replied (fst (h r ch)) # serve_rest h (snd (h r ch)) es"
| "serve_rest h ch (ServeReturned e # es) = serve_rest h (try_send ch \<lparr>code = [], err = Some e\<rparr>) es"
| "serve_rest h ch (SelectRecv # es) = serve_rest h ch es"
| "serve_rest h ch (SelectDone e # es) = serve_rest h ch es"

text \<open>
  The \<open>select\<close> of lines 215-223 against the schedule: the channel case is taken when
  the schedule says so and a value is buffered, and at the latest when the schedule is
  exhausted with a value buffered; with nothing buffered and nothing left to happen the
  orchestrator waits for ever. The result carries the effects of the wait, the channel
  and the events that are left.
\<close>

fun await :: "(Request \<Rightarrow> resp option \<Rightarrow> response \<times> resp option) \<Rightarrow> resp option \<Rightarrow>
    event list \<Rightarrow> selected \<times> effect list \<times> resp option \<times> event list" where
  "await h ch [] =
     (case ch of None \<Rightarrow> (Stuck, [], None, [])
      | Some rsp \<Rightarrow> (Recv rsp, [Received rsp], None, []))"
| "await h ch (Incoming r # es) =
     (case await h (snd (h r ch)) es of
        (sel, tr, ch', rest) \<Rightarrow> (sel, Replied (fst (h r ch)) # tr, ch', rest))"
| "await h ch (ServeReturned e # es) = await h (try_send ch \<lparr>code = [], err = Some e\<rparr>) es"
| "await h ch (SelectRecv # es) =
     (case ch of None \<Rightarrow> await h ch es
      | Some rsp \<Rightarrow> (Recv rsp, [Received rsp], None, es))"
| "await h ch (SelectDone e # es) = (Done e, [], ch, es)"

section \<open>tokenInteractive (lines 146-224)\<close>

text \<open>
  Lines 151-209: the path, the listener, the redirect URL written through the
  pointer \<open>cfg\<close>, the state, the authorization URL and the start of the server.
  \<open>Inl\<close> is an early exit of tokenInteractive (with the deferred \<open>ln.Close()\<close> when
  the listener exists already), \<open>Inr\<close> the flow that goes on.
\<close>

definition prepare :: "env \<Rightarrow> Auth \<Rightarrow> world \<Rightarrow>
    ((Token option \<times> error option) outcome + flow) \<times> world \<times> effect list" where
  "prepare ev a w =
     (case randhex w of
        (None, w1) \<Rightarrow> (Inl (Panic ''ran out of random''), w1, [])
      | (Some h, w1) \<Rightarrow>
          (case net_Listen ev of
             Inl e \<Rightarrow>
               (Inl (Return (None, Some (WrapError ''creating socket for local HTTP server'' e))),
                w1, [])
           | Inr addr \<Rightarrow>
               (case Config a of
                  None \<Rightarrow> (Inl (Panic ''nil pointer dereference''), w1, [NetListen addr, LnClose])
                | Some p \<Rightarrow>
                    let w2 = w1\<lparr>heap := (heap w1)
                               (p := (heap w1 p)\<lparr>RedirectURL := ''http://'' @ addr @ ''/'' @ h\<rparr>)\<rparr>
                    in
                    (case randhex w2 of
                       (None, w3) \<Rightarrow>
                         (Inl (Panic ''ran out of random''), w3, [NetListen addr, LnClose])
                     | (Some s, w3) \<Rightarrow>
                         (Inr \<lparr>path = ''/'' @ h, ln = addr, cfg = p, state = s,
                               startURL = AuthCodeURL ev (heap w3 p) s\<rparr>,
                          w3, [NetListen addr, ServeStarted])))))"

text \<open>
  Lines 211-223 for a prepared flow: show the URL, wait, exchange. The deferred
  \<open>s.Shutdown(ctx)\<close> and \<open>ln.Close()\<close> run on every return.
\<close>

definition run_flow :: "env \<Rightarrow> (string \<Rightarrow> error option) \<Rightarrow> flow \<Rightarrow> world \<Rightarrow>
    (Token option \<times> error option) outcome \<times> effect list" where
  "run_flow ev shw fl w =
     (let url = RedirectURL (heap w (cfg fl)) in
      case shw url of
        Some e \<Rightarrow> (Return (None, Some e), [Shown url, ServerShutdown, LnClose])
      | None \<Rightarrow>
          (case await (handler fl) None (incoming ev) of
             (Stuck, tr, ch', rest) \<Rightarrow> (Blocked, Shown url # tr)
           | (Done e, tr, ch', rest) \<Rightarrow>
               (Return (None, Some e),
                Shown url # tr @ serve_rest (handler fl) ch' rest @ [ServerShutdown, LnClose])
           | (Recv rsp, tr, ch', rest) \<Rightarrow>
               (case err rsp of
                  Some e \<Rightarrow>
                    (Return (None, Some e),
                     Shown url # tr @ serve_rest (handler fl) ch' rest @ [ServerShutdown, LnClose])
                | None \<Rightarrow>
                    (Return (Exchange ev (heap w (cfg fl)) (code rsp)),
                     Shown url # tr @ Exchanged (code rsp) # serve_rest (handler fl) ch' rest
                       @ [ServerShutdown, LnClose]))))"

definition tokenInteractive :: "env \<Rightarrow> Auth \<Rightarrow> world \<Rightarrow>
    (Token option \<times> error option) outcome \<times> world \<times> effect list" where
  "tokenInteractive ev a w =
     (case ShowURL a of
        None \<Rightarrow>
          (Return (None, Some (ErrorString ''interactive authentication is unavailable'')), w, [])
      | Some shw \<Rightarrow>
          (case prepare ev a w of
             (Inl out, w1, tr) \<Rightarrow> (out, w1, tr)
           | (Inr fl, w1, tr) \<Rightarrow>
               (case run_flow ev shw fl w1 of (out, tr') \<Rightarrow> (out, w1, tr @ tr'))))"

section \<open>TokenSource (lines 112-144)\<close>

definition tokenFromStorage :: "Auth \<Rightarrow> world \<Rightarrow> Token option \<times> error option" where
  "tokenFromStorage a w = (case Storage a of None \<Rightarrow> (None, None) | Some s \<Rightarrow> Read s w)"

definition TokenSource :: "env \<Rightarrow> Auth \<Rightarrow> world \<Rightarrow>
    (TokenSource option \<times> error option) outcome \<times> world \<times> effect list" where
  "TokenSource ev a w =
     (case tokenFromStorage a w of
        (tok, Some e) \<Rightarrow> (Return (None, Some e), w, [])
      | (Some tok, None) \<Rightarrow> (Return (Some (Config_TokenSource (Config a) tok), None), w, [])
      | (None, None) \<Rightarrow>
          (case tokenInteractive ev a w of
             (Return (tok, Some e), w', tr) \<Rightarrow> (Return (None, Some e), w', tr)
           | (Return (None, None), w', tr) \<Rightarrow>
               (Return (None, Some (ErrorString
                  ''interactive auth returned no error but also no token'')), w', tr)
           | (Return (Some tok, None), w', tr) \<Rightarrow>
               (Return (Some (Config_TokenSource (Config a) tok), None), w', tr)
           | (Panic m, w', tr) \<Rightarrow> (Panic m, w', tr)
           | (Blocked, w', tr) \<Rightarrow> (Blocked, w', tr)))"

section \<open>Reading a run\<close>

text \<open>
  The values the orchestrator received from the channel, the codes it exchanged and the
  URLs it showed, read off the effects of a run.
\<close>

fun deliveries :: "effect list \<Rightarrow> resp list" where
  "deliveries [] = []"
| "deliveries (Received rsp # tr) = rsp # deliveries tr"
| "deliveries (e # tr) = deliveries tr"

fun exchanges :: "effect list \<Rightarrow> string list" where
  "exchanges [] = []"
| "exchanges (Exchanged c # tr) = c # exchanges tr"
| "exchanges (e # tr) = exchanges tr"

fun shown :: "effect list \<Rightarrow> string list" where
  "shown [] = []"
| "shown (Shown u # tr) = u # shown tr"
| "shown (e # tr) = shown tr"

fun listened :: "effect list \<Rightarrow> string list" where
  "listened [] = []"
| "listened (NetListen addr # tr) = addr # listened tr"
| "listened (e # tr) = listened tr"

text \<open>
  A request concludes a flow when its path is the secret path and its state the
  expected one. An event is quiet when it neither concludes the flow nor cancels it.
\<close>

definition concluding :: "flow \<Rightarrow> Request \<Rightarrow> bool" where
  "concluding fl r = (URL_Path r = path fl \<and> Values_Get (URL_Query r) ''state'' = state fl)"

fun quiet :: "flow \<Rightarrow> event \<Rightarrow> bool" where
  "quiet fl (Incoming r) = (\<not> concluding fl r)"
| "quiet fl SelectRecv = True"
| "quiet fl (ServeReturned e) = False"
| "quiet fl (SelectDone e) = False"

fun not_done :: "event \<Rightarrow> bool" where
  "not_done (SelectDone e) = False"
| "not_done ev = True"

text \<open>A query parameter is present when the query has a pair with that key.\<close>

definition present :: "Request \<Rightarrow> string \<Rightarrow> bool" where
  "present r k = (k \<in> fst ` set (URL_Query r))"

text \<open>
  A file is not found when its name is empty or when, going through the directories on
  the way to it and then to the file itself, the first entry that is not a directory is
  a missing one.
\<close>

fun missing_on_way :: "(string \<rightharpoonup> fsnode) \<Rightarrow> string list \<Rightarrow> bool" where
  "missing_on_way fs [] = False"
| "missing_on_way fs (d # ds) =
     (case fs d of
        None \<Rightarrow> True
      | Some Directory \<Rightarrow> missing_on_way fs ds
      | Some (Regular bs) \<Rightarrow> False
      | Some (Faulty f) \<Rightarrow> False)"

definition not_found :: "world \<Rightarrow> string \<Rightarrow> bool" where
  "not_found w f = (f = [] \<or> missing_on_way (files w) (ancestors f @ [f]))"



section \<open>A concrete scenario\<close>

text \<open>
  A stand-in for the library's \<open>Config.AuthCodeURL\<close> (which also percent-encodes the
  values), a provider that accepts the code ABC123, and a browser that calls back once.
\<close>

definition AuthCodeURL_plain :: "Config \<Rightarrow> string \<Rightarrow> string" where
  "AuthCodeURL_plain c st =
     AuthURL c @ ''?access_type=offline&client_id='' @ ClientID c @ ''&redirect_uri='' @
     RedirectURL c @ ''&response_type=code&state='' @ st"

definition cfg0 :: Config where
  "cfg0 = \<lparr>ClientID = ''id'', ClientSecret = ''secret'', AuthURL = ''https://provider.example/auth'',
           TokenURL = ''https://provider.example/token'', RedirectURL = [], Scopes = [''email'']\<rparr>"

definition tok0 :: Token where
  "tok0 = \<lparr>AccessToken = ''at'', TokenType = ''Bearer'', RefreshToken = ''rt'', Expiry = 3600\<rparr>"

definition w0 :: world where
  "w0 = \<lparr>heap = (\<lambda>p. cfg0), files = Map.empty,
         entropy = [0, 1, 2, 3, 4, 5, 6, 7, 8, 9, 10, 11, 12, 13, 14, 15]\<rparr>"

definition callback :: "(string \<times> string) list \<Rightarrow> Request" where
  "callback q = \<lparr>URL_Path = ''/0001020304050607'', URL_Query = q\<rparr>"

definition token_bytes :: "Token \<Rightarrow> byte list" where
  "token_bytes t = map (\<lambda>c. of_nat (of_char c)) (AccessToken t @ '' '' @ RefreshToken t)"

definition env0 :: "event list \<Rightarrow> env" where
  "env0 es = \<lparr>AuthCodeURL = AuthCodeURL_plain,
              Exchange = (\<lambda>c k. if k = ''ABC123'' then (Some tok0, None)
                                else (None, Some (ErrorString ''invalid_grant''))),
              json_Marshal = (\<lambda>t. Inr (token_bytes t)),
              json_Unmarshal = (\<lambda>bs. if bs = token_bytes tok0 then Inr tok0
                                      else Inl (ErrorString ''invalid character'')),
              net_Listen = Inr ''127.0.0.1:34567'',
              incoming = es\<rparr>"

definition a0 :: "env \<Rightarrow> Auth" where
  "a0 ev = \<lparr>Config = Some 0, Storage = Some (FileStore ev ''oauth.json''), ShowURL = Some PrintURL\<rparr>"

definition fl0 :: flow where
  "fl0 = \<lparr>path = ''/0001020304050607'', ln = ''127.0.0.1:34567'', cfg = 0,
          state = ''08090a0b0c0d0e0f'',
          startURL = ''https://provider.example/auth?access_type=offline&client_id=id&redirect_uri=http://127.0.0.1:34567/0001020304050607&response_type=code&state=08090a0b0c0d0e0f''\<rparr>"

text \<open>The world once the listener of that scenario is bound.\<close>

definition w0_bound :: world where
  "w0_bound = \<lparr>heap = (\<lambda>p. cfg0)
                 (0 := cfg0\<lparr>RedirectURL := ''http://127.0.0.1:34567/0001020304050607''\<rparr>),
               files = Map.empty, entropy = []\<rparr>"

text \<open>Requests a browser (or anybody else on the machine) can send to the listener.\<close>

definition cb_code :: Request where
  "cb_code = callback [(''state'', ''08090a0b0c0d0e0f''), (''code'', ''ABC123'')]"

definition cb_denied :: Request where
  "cb_denied = callback [(''state'', ''08090a0b0c0d0e0f''), (''error'', ''access_denied'')]"

definition cb_both :: Request where
  "cb_both = callback [(''state'', ''08090a0b0c0d0e0f''), (''error'', ''access_denied''),
                       (''code'', ''ABC123'')]"

definition cb_empty_error :: Request where
  "cb_empty_error = callback [(''state'', ''08090a0b0c0d0e0f''), (''error'', []),
                              (''code'', ''ABC123'')]"

definition cb_empty_state :: Request where
  "cb_empty_state = callback [(''state'', [])]"

definition cb_bad_state :: Request where
  "cb_bad_state = callback [(''state'', ''deadbeefdeadbeef''), (''code'', ''ABC123'')]"

definition cb_probe :: Request where
  "cb_probe = callback []"

definition cb_state_only :: Request where
  "cb_state_only = callback [(''state'', ''08090a0b0c0d0e0f'')]"

text \<open>A provider whose exchange yields neither a token nor an error, and a corrupt cache.\<close>

definition env_nil :: "event list \<Rightarrow> env" where
  "env_nil es = (env0 es)\<lparr>Exchange := (\<lambda>c k. (None, None))\<rparr>"

definition w_corrupt :: world where
  "w_corrupt = w0\<lparr>files := [''oauth.json'' \<mapsto> Regular [0x7b]]\<rparr>"

text \<open>A world in which the store's directory is a regular file.\<close>

definition w_below_file :: world where
  "w_below_file = w0\<lparr>files := [''a'' \<mapsto> Regular []]\<rparr>"

section \<open>Facts about the model\<close>

lemma length_hex_EncodeToString: "length (hex_EncodeToString bs) = 2 * length bs"
  by (induction bs) (simp_all add: hex_EncodeToString_def)

lemma prepare_Inr:
  assumes "prepare ev a w = (Inr fl, w1, tr)"
  shows "net_Listen ev = Inr (ln fl)"
    and "Config a = Some (cfg fl)"
    and "path fl = ''/'' @ hex_EncodeToString (take 8 (entropy w))"
    and "state fl = hex_EncodeToString (take 8 (drop 8 (entropy w)))"
    and "startURL fl = AuthCodeURL ev (heap w1 (cfg fl)) (state fl)"
    and "heap w1 = (heap w)(cfg fl := (heap w (cfg fl))\<lparr>RedirectURL := ''http://'' @ ln fl @ path fl\<rparr>)"
    and "files w1 = files w"
    and "tr = [NetListen (ln fl), ServeStarted]"
  using assms
  by (auto simp: prepare_def randhex_def Let_def split: if_splits sum.splits option.splits)

lemma prepare_state_length:
  assumes "prepare ev a w = (Inr fl, w1, tr)"
  shows "length (state fl) = 16"
  using assms
  by (auto simp: prepare_def randhex_def Let_def length_hex_EncodeToString split: if_splits sum.splits option.splits)

lemma prepare_Inl:
  assumes "prepare ev a w = (Inl out, w1, tr)"
  shows "files w1 = files w"
    and "shown tr = []" and "deliveries tr = []" and "exchanges tr = []"
    and "(tr = [] \<and> heap w1 = heap w) \<or>
         (\<exists>addr. tr = [NetListen addr, LnClose] \<and>
            ((Config a = None \<and> heap w1 = heap w) \<or>
             (\<exists>p. Config a = Some p \<and>
                heap w1 = (heap w)(p := (heap w p)\<lparr>RedirectURL :=
                  ''http://'' @ addr @ ''/'' @ hex_EncodeToString (take 8 (entropy w))\<rparr>))))"
  using assms
  by (auto simp: prepare_def randhex_def Let_def split: if_splits sum.splits option.splits)

lemma deliveries_append: "deliveries (xs @ ys) = deliveries xs @ deliveries ys"
  by (induction xs rule: deliveries.induct) simp_all

lemma exchanges_append: "exchanges (xs @ ys) = exchanges xs @ exchanges ys"
  by (induction xs rule: exchanges.induct) simp_all

lemma shown_append: "shown (xs @ ys) = shown xs @ shown ys"
  by (induction xs rule: shown.induct) simp_all

lemma listened_append: "listened (xs @ ys) = listened xs @ listened ys"
  by (induction xs rule: listened.induct) simp_all

lemma serve_rest_silent:
  "deliveries (serve_rest h ch es) = []" "exchanges (serve_rest h ch es) = []"
  "shown (serve_rest h ch es) = []" "listened (serve_rest h ch es) = []"
  by (induction h ch es rule: serve_rest.induct) simp_all

lemma await_effects:
  assumes "await h ch es = (sel, tr, ch', rest)"
  shows "exchanges tr = []" and "shown tr = []" and "listened tr = []"
    and "deliveries tr = (case sel of Recv rsp \<Rightarrow> [rsp] | Done e \<Rightarrow> [] | Stuck \<Rightarrow> [])"
  using assms
  by (induction h ch es arbitrary: sel tr ch' rest rule: await.induct)
     (auto split: option.splits prod.splits)

lemma handler_full: "snd (handler fl r (Some x)) = Some x"
  by (simp add: handler_def try_send_def Let_def)

lemma handler_not_concluding: "\<not> concluding fl r \<Longrightarrow> snd (handler fl r ch) = ch"
  by (auto simp: handler_def concluding_def Let_def)

lemma handler_concluding:
  "concluding fl r \<Longrightarrow> state fl \<noteq> [] \<Longrightarrow>
   handler fl r ch = (HttpOK success_page, try_send ch (callback_resp r))"
  by (auto simp: handler_def concluding_def Let_def)

lemma await_full:
  "list_all not_done es \<Longrightarrow> \<exists>tr ch' rest. await (handler fl) (Some x) es = (Recv x, tr, ch', rest)"
proof (induction es)
  case Nil
  then show ?case by simp
next
  case (Cons e es)
  then show ?case
    by (cases e) (auto simp: handler_full try_send_def)
qed

lemma await_first:
  assumes "state fl \<noteq> []" and "concluding fl r" and "list_all not_done post"
  shows "list_all (quiet fl) pre \<Longrightarrow>
    \<exists>tr ch' rest. await (handler fl) None (pre @ Incoming r # post) = (Recv (callback_resp r), tr, ch', rest)"
proof (induction pre)
  case Nil
  from await_full [OF assms(3), of fl "callback_resp r"]
  show ?case using assms(1,2) by (auto simp: handler_concluding try_send_def)
next
  case (Cons e pre)
  then show ?case
    by (cases e) (auto simp: handler_not_concluding)
qed

lemma run_flow_first:
  assumes "state fl \<noteq> []" and "concluding fl r" and "list_all (quiet fl) pre"
    and "list_all not_done post" and "incoming ev = pre @ Incoming r # post"
    and "shw (RedirectURL (heap w (cfg fl))) = None"
  shows "\<exists>tr. run_flow ev shw fl w =
      ((case err (callback_resp r) of
          Some e \<Rightarrow> Return (None, Some e)
        | None \<Rightarrow> Return (Exchange ev (heap w (cfg fl)) (code (callback_resp r)))), tr) \<and>
      deliveries tr = [callback_resp r] \<and>
      exchanges tr = (case err (callback_resp r) of Some e \<Rightarrow> [] | None \<Rightarrow> [code (callback_resp r)])"
proof -
  from await_first [OF assms(1,2,4,3)]
  obtain tr ch' rest where
    aw: "await (handler fl) None (pre @ Incoming r # post) = (Recv (callback_resp r), tr, ch', rest)"
    by blast
  from await_effects [OF aw] have "deliveries tr = [callback_resp r]" "exchanges tr = []"
    by simp_all
  with aw assms(5,6) show ?thesis
    by (cases "err (callback_resp r)")
       (simp_all add: run_flow_def Let_def deliveries_append exchanges_append serve_rest_silent)
qed

lemma tokenInteractive_first:
  assumes "ShowURL a = Some shw" and "prepare ev a w = (Inr fl, w1, tr0)"
    and "shw (RedirectURL (heap w1 (cfg fl))) = None"
    and "incoming ev = pre @ Incoming r # post"
    and "list_all (quiet fl) pre" and "concluding fl r" and "list_all not_done post"
  shows "\<exists>tr. tokenInteractive ev a w =
      ((case err (callback_resp r) of
          Some e \<Rightarrow> Return (None, Some e)
        | None \<Rightarrow> Return (Exchange ev (heap w1 (cfg fl)) (code (callback_resp r)))), w1, tr) \<and>
      deliveries tr = [callback_resp r] \<and>
      exchanges tr = (case err (callback_resp r) of Some e \<Rightarrow> [] | None \<Rightarrow> [code (callback_resp r)])"
proof -
  from prepare_state_length [OF assms(2)] have ne: "state fl \<noteq> []" by auto
  from run_flow_first [of fl r pre post ev shw w1, OF ne assms(6,5,7,4,3)] obtain tr where
    rf: "run_flow ev shw fl w1 =
      ((case err (callback_resp r) of
          Some e \<Rightarrow> Return (None, Some e)
        | None \<Rightarrow> Return (Exchange ev (heap w1 (cfg fl)) (code (callback_resp r)))), tr)"
    and d: "deliveries tr = [callback_resp r]"
    and x: "exchanges tr = (case err (callback_resp r) of Some e \<Rightarrow> [] | None \<Rightarrow> [code (callback_resp r)])"
    by blast
  from prepare_Inr(8) [OF assms(2)] have "deliveries tr0 = []" "exchanges tr0 = []" by simp_all
  with rf d x assms(1,2) show ?thesis
    by (simp add: tokenInteractive_def deliveries_append exchanges_append)
qed

lemma run_flow_counts:
  assumes "run_flow ev shw fl w = (out, tr)"
  shows "length (deliveries tr) \<le> 1" and "length (exchanges tr) \<le> 1"
    and "shown tr = [RedirectURL (heap w (cfg fl))]" and "listened tr = []"
proof -
  obtain sel t ch' rest where aw: "await (handler fl) None (incoming ev) = (sel, t, ch', rest)"
    by (cases "await (handler fl) None (incoming ev)") auto
  note ae = await_effects [OF aw]
  from assms aw ae show "length (deliveries tr) \<le> 1"
    by (auto simp: run_flow_def Let_def deliveries_append serve_rest_silent
        split: option.splits selected.splits)
  from assms aw ae show "length (exchanges tr) \<le> 1"
    by (auto simp: run_flow_def Let_def exchanges_append serve_rest_silent
        split: option.splits selected.splits)
  from assms aw ae show "shown tr = [RedirectURL (heap w (cfg fl))]"
    by (auto simp: run_flow_def Let_def shown_append serve_rest_silent
        split: option.splits selected.splits)
  from assms aw ae show "listened tr = []"
    by (auto simp: run_flow_def Let_def listened_append serve_rest_silent
        split: option.splits selected.splits)
qed

lemma tokenInteractive_counts:
  assumes "tokenInteractive ev a w = (out, w', tr)"
  shows "length (deliveries tr) \<le> 1" and "length (exchanges tr) \<le> 1"
proof -
  show "length (deliveries tr) \<le> 1"
  proof (cases "ShowURL a")
    case None
    with assms show ?thesis by (auto simp: tokenInteractive_def)
  next
    case (Some shw)
    obtain res w1 tr0 where p: "prepare ev a w = (res, w1, tr0)"
      by (cases "prepare ev a w") auto
    show ?thesis
    proof (cases res)
      case (Inl o1)
      with p Some assms prepare_Inl(3) [of ev a w o1 w1 tr0] show ?thesis
        by (auto simp: tokenInteractive_def)
    next
      case (Inr fl)
      obtain o2 tr2 where r: "run_flow ev shw fl w1 = (o2, tr2)"
        by (cases "run_flow ev shw fl w1") auto
      from p Inr have "tr0 = [NetListen (ln fl), ServeStarted]" using prepare_Inr(8) by blast
      with p Inr Some assms r run_flow_counts(1) [OF r] show ?thesis
        by (auto simp: tokenInteractive_def deliveries_append)
    qed
  qed
  show "length (exchanges tr) \<le> 1"
  proof (cases "ShowURL a")
    case None
    with assms show ?thesis by (auto simp: tokenInteractive_def)
  next
    case (Some shw)
    obtain res w1 tr0 where p: "prepare ev a w = (res, w1, tr0)"
      by (cases "prepare ev a w") auto
    show ?thesis
    proof (cases res)
      case (Inl o1)
      with p Some assms prepare_Inl(4) [of ev a w o1 w1 tr0] show ?thesis
        by (auto simp: tokenInteractive_def)
    next
      case (Inr fl)
      obtain o2 tr2 where r: "run_flow ev shw fl w1 = (o2, tr2)"
        by (cases "run_flow ev shw fl w1") auto
      from p Inr have "tr0 = [NetListen (ln fl), ServeStarted]" using prepare_Inr(8) by blast
      with p Inr Some assms r run_flow_counts(2) [OF r] show ?thesis
        by (auto simp: tokenInteractive_def exchanges_append)
    qed
  qed
qed

lemma Values_Get_absent: "k \<notin> fst ` set q \<Longrightarrow> Values_Get q k = []"
  by (simp add: Values_Get_def map_of_eq_None_iff [THEN iffD2])

lemma tokenInteractive_files:
  assumes "tokenInteractive ev a w = (out, w', tr)"
  shows "files w' = files w"
proof (cases "ShowURL a")
  case None
  with assms show ?thesis by (auto simp: tokenInteractive_def)
next
  case (Some shw)
  obtain res w1 tr0 where p: "prepare ev a w = (res, w1, tr0)"
    by (cases "prepare ev a w") auto
  show ?thesis
  proof (cases res)
    case (Inl o1)
    with p Some assms prepare_Inl(1) [of ev a w o1 w1 tr0] show ?thesis
      by (auto simp: tokenInteractive_def)
  next
    case (Inr fl)
    with p Some assms prepare_Inr(7) [of ev a w fl w1 tr0] show ?thesis
      by (auto simp: tokenInteractive_def split: prod.splits)
  qed
qed

lemma TokenSource_keeps_files:
  assumes "TokenSource ev a w = (out, w', tr)"
  shows "files w' = files w"
proof -
  obtain o1 w1 tr1 where t: "tokenInteractive ev a w = (o1, w1, tr1)"
    by (cases "tokenInteractive ev a w") auto
  from tokenInteractive_files [OF t] assms t show ?thesis
    by (auto simp: TokenSource_def split: prod.splits option.splits outcome.splits)
qed

lemma missing_on_way_walk:
  "missing_on_way fs (ds @ [f]) \<longleftrightarrow>
     walk fs ds = Some ErrNotExist \<or> (walk fs ds = None \<and> fs f = None)"
  by (induction ds) (auto split: option.splits fsnode.splits)

lemma walk_cases:
  "walk fs ds = None \<or> walk fs ds = Some ErrNotExist \<or> (\<exists>flt. walk fs ds = Some (Errno flt))"
  by (induction ds) (auto split: option.splits fsnode.splits)

lemma fileStore_Read_not_found:
  "fileStore_Read ev f w = (None, None) \<longleftrightarrow> not_found w f"
proof (cases "f = []")
  case True
  then show ?thesis by (simp add: fileStore_Read_def os_ReadFile_def not_found_def)
next
  case False
  from walk_cases [of "files w" "ancestors f"] False show ?thesis
    by (auto simp: fileStore_Read_def os_ReadFile_def not_found_def missing_on_way_walk
        split: option.splits fsnode.splits sum.splits)
qed

lemma prepare_writes:
  assumes "prepare ev a w = (res, w1, tr)"
  shows "8 \<le> length (entropy w) \<and> net_Listen ev = Inr addr \<and> Config a = Some p \<longrightarrow>
      heap w1 = (heap w)(p := (heap w p)\<lparr>RedirectURL :=
        ''http://'' @ addr @ ''/'' @ hex_EncodeToString (take 8 (entropy w))\<rparr>)"
    and "length (entropy w) < 8 \<or> net_Listen ev = Inl e \<or> Config a = None \<longrightarrow> heap w1 = heap w"
    and "files w1 = files w"
  using assms
  by (auto simp: prepare_def randhex_def Let_def split: if_splits sum.splits option.splits)

lemma tokenInteractive_world:
  assumes "tokenInteractive ev a w = (out, w', tr)"
  shows "ShowURL a = None \<longrightarrow> w' = w"
    and "ShowURL a \<noteq> None \<longrightarrow> w' = fst (snd (prepare ev a w))"
  using assms
  by (auto simp: tokenInteractive_def split: option.splits prod.splits sum.splits)





lemma handler_empty_state:
  "URL_Path r = path fl \<Longrightarrow> Values_Get (URL_Query r) ''state'' = [] \<Longrightarrow>
   handler fl r ch = (HttpRedirect 302 (startURL fl), ch)"
  by (simp add: handler_def)

section \<open>The concrete scenario, evaluated\<close>

lemmas scenario_defs =
  env0_def env_nil_def a0_def w0_def w0_bound_def fl0_def cfg0_def tok0_def callback_def
  cb_code_def cb_denied_def cb_both_def cb_empty_error_def cb_empty_state_def
  cb_bad_state_def cb_probe_def cb_state_only_def w_corrupt_def w_below_file_def AuthCodeURL_plain_def PrintURL_def token_bytes_def

lemmas run_defs =
  prepare_def randhex_def hex_EncodeToString_def hextable_def run_flow_def tokenInteractive_def
  TokenSource_def tokenFromStorage_def FileStore_def fileStore_Read_def os_ReadFile_def
  ancestors_def
  handler_def callback_resp_def Values_Get_def try_send_def concluding_def present_def Let_def

lemma prepare_scenario:
  "prepare (env0 es) (a0 ev) w0 = (Inr fl0, w0_bound, [NetListen ''127.0.0.1:34567'', ServeStarted])"
  by (simp add: scenario_defs run_defs)

lemma storage_scenario: "tokenFromStorage (a0 (env0 es)) w0 = (None, None)"
  by (simp add: scenario_defs run_defs)

lemma run_code:
  "tokenInteractive (env0 [Incoming cb_code]) (a0 ev) w0 =
     (Return (Some tok0, None), w0_bound,
      [NetListen ''127.0.0.1:34567'', ServeStarted, Shown ''http://127.0.0.1:34567/0001020304050607'',
       Replied (HttpOK success_page), Received \<lparr>code = ''ABC123'', err = None\<rparr>,
       Exchanged ''ABC123'', ServerShutdown, LnClose])"
  by (simp add: scenario_defs run_defs)

lemma run_nil:
  "tokenInteractive (env_nil [Incoming cb_code]) (a0 ev) w0 =
     (Return (None, None), w0_bound,
      [NetListen ''127.0.0.1:34567'', ServeStarted, Shown ''http://127.0.0.1:34567/0001020304050607'',
       Replied (HttpOK success_page), Received \<lparr>code = ''ABC123'', err = None\<rparr>,
       Exchanged ''ABC123'', ServerShutdown, LnClose])"
  by (simp add: scenario_defs run_defs)

lemma run_denied:
  "tokenInteractive (env0 [Incoming cb_denied]) (a0 ev) w0 =
     (Return (None, Some (ErrorString ''OAuth server returned error: access_denied'')), w0_bound,
      [NetListen ''127.0.0.1:34567'', ServeStarted, Shown ''http://127.0.0.1:34567/0001020304050607'',
       Replied (HttpOK success_page),
       Received \<lparr>code = [], err = Some (ErrorString ''OAuth server returned error: access_denied'')\<rparr>,
       ServerShutdown, LnClose])"
  by (simp add: scenario_defs run_defs)

lemma run_neither:
  "tokenInteractive (env0 [Incoming cb_state_only]) (a0 ev) w0 =
     (Return (None, Some (ErrorString ''OAuth server returned invalid response, no code or error'')),
      w0_bound,
      [NetListen ''127.0.0.1:34567'', ServeStarted, Shown ''http://127.0.0.1:34567/0001020304050607'',
       Replied (HttpOK success_page),
       Received \<lparr>code = [], err = Some (ErrorString
         ''OAuth server returned invalid response, no code or error'')\<rparr>,
       ServerShutdown, LnClose])"
  by (simp add: scenario_defs run_defs)

lemma run_duplicates:
  "tokenInteractive
     (env0 [Incoming cb_bad_state, Incoming cb_code, Incoming cb_denied, SelectRecv, Incoming cb_code])
     (a0 ev) w0 =
     (Return (Some tok0, None), w0_bound,
      [NetListen ''127.0.0.1:34567'', ServeStarted, Shown ''http://127.0.0.1:34567/0001020304050607'',
       Replied (HttpError 412 ''bad state''), Replied (HttpOK success_page),
       Replied (HttpOK success_page), Received \<lparr>code = ''ABC123'', err = None\<rparr>,
       Exchanged ''ABC123'', Replied (HttpOK success_page), ServerShutdown, LnClose])"
  by (simp add: scenario_defs run_defs)

section \<open>The claims\<close>

text \<open>
  C7. With no ShowURL function configured and no token in the cache (no Storage, or a
  Storage whose Read returns neither a token nor an error), TokenSource returns at once
  the error "interactive authentication is unavailable": the world is unchanged and the
  run has no effect at all, in particular no listener was bound.
\<close>

theorem no_ShowURL_fails_before_listen:
  assumes "ShowURL a = None" and "tokenFromStorage a w = (None, None)"
  shows "TokenSource ev a w =
     (Return (None, Some (ErrorString ''interactive authentication is unavailable'')), w, []) \<and>
     listened (snd (snd (TokenSource ev a w))) = []"
  using assms by (simp add: TokenSource_def tokenInteractive_def)

theorem no_ShowURL_fails_before_listen_witness:
  "TokenSource (env0 []) ((a0 (env0 []))\<lparr>ShowURL := None\<rparr>) w0 =
     (Return (None, Some (ErrorString ''interactive authentication is unavailable'')), w0, []) \<and>
   listened (snd (snd (TokenSource (env0 []) ((a0 (env0 []))\<lparr>ShowURL := None\<rparr>) w0))) = []"
  using no_ShowURL_fails_before_listen [of "(a0 (env0 []))\<lparr>ShowURL := None\<rparr>" w0 "env0 []"]
  by (simp add: scenario_defs tokenFromStorage_def FileStore_def fileStore_Read_def os_ReadFile_def
      ancestors_def)

text \<open>
  C10. Whenever TokenSource returns, exactly one of the token source and the error is
  nil. In particular, when the cache is empty and tokenInteractive returns neither a
  token nor an error, TokenSource returns the explicit error "interactive auth returned
  no error but also no token".
\<close>

theorem TokenSource_never_nil_nil:
  "(TokenSource ev a w = (Return (ts, e), w', tr) \<longrightarrow> (ts = None) \<noteq> (e = None)) \<and>
   (tokenFromStorage a w = (None, None) \<and> tokenInteractive ev a w = (Return (None, None), w1, tr1) \<longrightarrow>
      TokenSource ev a w =
        (Return (None, Some (ErrorString ''interactive auth returned no error but also no token'')),
         w1, tr1))"
  by (auto simp: TokenSource_def split: prod.splits option.splits outcome.splits)

theorem TokenSource_never_nil_nil_witness:
  "TokenSource (env_nil [Incoming cb_code]) (a0 (env0 [])) w0 =
     (Return (None, Some (ErrorString ''interactive auth returned no error but also no token'')),
      w0_bound,
      [NetListen ''127.0.0.1:34567'', ServeStarted, Shown ''http://127.0.0.1:34567/0001020304050607'',
       Replied (HttpOK success_page), Received \<lparr>code = ''ABC123'', err = None\<rparr>,
       Exchanged ''ABC123'', ServerShutdown, LnClose]) \<and>
   ((None :: TokenSource option) = None) \<noteq>
     (Some (ErrorString ''interactive auth returned no error but also no token'') = None)"
  using TokenSource_never_nil_nil [of "env_nil [Incoming cb_code]" "a0 (env0 [])" w0
      None "Some (ErrorString ''interactive auth returned no error but also no token'')" w0_bound
      "[NetListen ''127.0.0.1:34567'', ServeStarted, Shown ''http://127.0.0.1:34567/0001020304050607'',
       Replied (HttpOK success_page), Received \<lparr>code = ''ABC123'', err = None\<rparr>,
       Exchanged ''ABC123'', ServerShutdown, LnClose]" w0_bound
      "[NetListen ''127.0.0.1:34567'', ServeStarted, Shown ''http://127.0.0.1:34567/0001020304050607'',
       Replied (HttpOK success_page), Received \<lparr>code = ''ABC123'', err = None\<rparr>,
       Exchanged ''ABC123'', ServerShutdown, LnClose]"]
    run_nil [of "env0 []"] storage_scenario [of "[]"]
  by simp

text \<open>
  C8, as amended. Reading the file store returns neither a token nor an error exactly
  when the file is not found: its name is empty, or the file or a directory on the way
  to it is missing. Every other fault is an error: a path that runs through a regular
  file or through a directory that cannot be entered, a file that cannot be opened or
  read, and a file whose contents do not parse (the parse error, wrapped). Whenever the
  configured Storage returns an error from Read, TokenSource returns that error with the
  world unchanged and without any effect: the interactive flow is not started.
\<close>

theorem fileStore_Read_none_iff_not_found:
  "(fileStore_Read ev f w = (None, None) \<longleftrightarrow> not_found w f) \<and>
   (f \<noteq> [] \<and> walk (files w) (ancestors f) = Some (Errno flt) \<longrightarrow>
      fileStore_Read ev f w = (None, Some (PathError ''open'' f (Errno flt)))) \<and>
   (f \<noteq> [] \<and> walk (files w) (ancestors f) = None \<and> files w f = Some (Faulty flt) \<longrightarrow>
      fileStore_Read ev f w = (None, Some (PathError ''open'' f (Errno flt)))) \<and>
   (f \<noteq> [] \<and> walk (files w) (ancestors f) = None \<and> files w f = Some Directory \<longrightarrow>
      fileStore_Read ev f w = (None, Some (PathError ''read'' f (Errno EISDIR)))) \<and>
   (f \<noteq> [] \<and> walk (files w) (ancestors f) = None \<and> files w f = Some (Regular bs) \<and>
    json_Unmarshal ev bs = Inl e \<longrightarrow>
      fileStore_Read ev f w = (None, Some (WrapError ''unmarshaling auth config'' e))) \<and>
   (Storage a = Some s \<and> Read s w = (t, Some e') \<longrightarrow>
      TokenSource ev' a w = (Return (None, Some e'), w, []))"
proof (intro conjI)
  show "fileStore_Read ev f w = (None, None) \<longleftrightarrow> not_found w f"
    by (rule fileStore_Read_not_found)
  show "f \<noteq> [] \<and> walk (files w) (ancestors f) = Some (Errno flt) \<longrightarrow>
      fileStore_Read ev f w = (None, Some (PathError ''open'' f (Errno flt)))"
    by (simp add: fileStore_Read_def os_ReadFile_def)
  show "f \<noteq> [] \<and> walk (files w) (ancestors f) = None \<and> files w f = Some (Faulty flt) \<longrightarrow>
      fileStore_Read ev f w = (None, Some (PathError ''open'' f (Errno flt)))"
    by (simp add: fileStore_Read_def os_ReadFile_def)
  show "f \<noteq> [] \<and> walk (files w) (ancestors f) = None \<and> files w f = Some Directory \<longrightarrow>
      fileStore_Read ev f w = (None, Some (PathError ''read'' f (Errno EISDIR)))"
    by (simp add: fileStore_Read_def os_ReadFile_def)
  show "f \<noteq> [] \<and> walk (files w) (ancestors f) = None \<and> files w f = Some (Regular bs) \<and>
    json_Unmarshal ev bs = Inl e \<longrightarrow>
      fileStore_Read ev f w = (None, Some (WrapError ''unmarshaling auth config'' e))"
    by (simp add: fileStore_Read_def os_ReadFile_def)
  show "Storage a = Some s \<and> Read s w = (t, Some e') \<longrightarrow>
      TokenSource ev' a w = (Return (None, Some e'), w, [])"
    by (simp add: TokenSource_def tokenFromStorage_def split: option.splits)
qed

theorem fileStore_Read_none_iff_not_found_witness:
  "fileStore_Read (env0 []) ''oauth.json'' w_corrupt =
     (None, Some (WrapError ''unmarshaling auth config'' (ErrorString ''invalid character''))) \<and>
   TokenSource (env0 [Incoming cb_code]) (a0 (env0 [])) w_corrupt =
     (Return (None, Some (WrapError ''unmarshaling auth config'' (ErrorString ''invalid character''))),
      w_corrupt, []) \<and>
   fileStore_Read (env0 []) ''a/oauth.json'' w_below_file =
     (None, Some (PathError ''open'' ''a/oauth.json'' (Errno ENOTDIR))) \<and>
   fileStore_Read (env0 []) ''oauth.json'' w0 = (None, None)"
proof -
  have h1: "''oauth.json'' \<noteq> [] \<and> walk (files w_corrupt) (ancestors ''oauth.json'') = None \<and>
      files w_corrupt ''oauth.json'' = Some (Regular [0x7b]) \<and>
      json_Unmarshal (env0 []) [0x7b] = Inl (ErrorString ''invalid character'')"
    by (simp add: scenario_defs ancestors_def)
  have h2: "Storage (a0 (env0 [])) = Some (FileStore (env0 []) ''oauth.json'')"
    by (simp add: a0_def)
  have h3: "''a/oauth.json'' \<noteq> [] \<and>
      walk (files w_below_file) (ancestors ''a/oauth.json'') = Some (Errno ENOTDIR)"
    by (simp add: scenario_defs ancestors_def)
  have h4: "not_found w0 ''oauth.json''"
    by (simp add: not_found_def scenario_defs ancestors_def)
  note t1 = fileStore_Read_none_iff_not_found [of "env0 []" "''oauth.json''" w_corrupt EIO "[0x7b]"
      "ErrorString ''invalid character''" "a0 (env0 [])" "FileStore (env0 []) ''oauth.json''" None
      "WrapError ''unmarshaling auth config'' (ErrorString ''invalid character'')"
      "env0 [Incoming cb_code]"]
  from t1 h1 have a: "fileStore_Read (env0 []) ''oauth.json'' w_corrupt =
     (None, Some (WrapError ''unmarshaling auth config'' (ErrorString ''invalid character'')))"
    by blast
  with t1 h2 have b: "TokenSource (env0 [Incoming cb_code]) (a0 (env0 [])) w_corrupt =
     (Return (None, Some (WrapError ''unmarshaling auth config'' (ErrorString ''invalid character''))),
      w_corrupt, [])"
    by (simp add: FileStore_def)
  from fileStore_Read_none_iff_not_found [of "env0 []" "''a/oauth.json''" w_below_file ENOTDIR] h3
  have c: "fileStore_Read (env0 []) ''a/oauth.json'' w_below_file =
     (None, Some (PathError ''open'' ''a/oauth.json'' (Errno ENOTDIR)))"
    by blast
  from fileStore_Read_none_iff_not_found [of "env0 []" "''oauth.json''" w0] h4
  have d: "fileStore_Read (env0 []) ''oauth.json'' w0 = (None, None)"
    by blast
  from a b c d show ?thesis by blast
qed

text \<open>
  C8 as stated fails where nothing exists at the store's path because its directory
  is a regular file: opening fails with ENOTDIR, which is not \<open>fs.ErrNotExist\<close>,
  and Read returns the error.
\<close>

theorem absent_below_file_counterexample:
  "files w_below_file ''a/oauth.json'' = None \<and>
   fileStore_Read (env0 []) ''a/oauth.json'' w_below_file =
     (None, Some (PathError ''open'' ''a/oauth.json'' (Errno ENOTDIR))) \<and>
   fileStore_Read (env0 []) ''a/oauth.json'' w_below_file \<noteq> (None, None)"
  by (simp add: scenario_defs run_defs)

text \<open>
  C9. However a run of tokenInteractive ends (a return, a panic, or waiting for ever), it
  leaves the files alone, leaves every configuration object other than the one
  \<open>a.Config\<close> points to alone, and changes no field of that object but RedirectURL.
  Every run with a ShowURL function, eight random bytes for the path, a listener bound
  at an address and a configuration object ends with RedirectURL of that object set to
  \<open>http://\<close> followed by the address and the secret path: it is written in place and
  not restored. A run that does not get that far leaves the heap as it was.
\<close>

theorem tokenInteractive_frame:
  assumes "tokenInteractive ev a w = (out, w', tr)"
  shows "files w' = files w \<and>
    (Config a \<noteq> Some q \<longrightarrow> heap w' q = heap w q) \<and>
    (Config a = Some p \<longrightarrow> (heap w' p)\<lparr>RedirectURL := RedirectURL (heap w p)\<rparr> = heap w p) \<and>
    (ShowURL a = Some shw \<and> 8 \<le> length (entropy w) \<and> net_Listen ev = Inr addr \<and> Config a = Some p \<longrightarrow>
       heap w' = (heap w)(p := (heap w p)\<lparr>RedirectURL :=
         ''http://'' @ addr @ ''/'' @ hex_EncodeToString (take 8 (entropy w))\<rparr>)) \<and>
    (ShowURL a = None \<or> length (entropy w) < 8 \<or> net_Listen ev = Inl e \<or> Config a = None \<longrightarrow>
       heap w' = heap w)"
proof (cases "ShowURL a")
  case None
  with tokenInteractive_world(1) [OF assms] show ?thesis by simp
next
  case (Some s)
  obtain res w1 tr0 where p: "prepare ev a w = (res, w1, tr0)"
    by (cases "prepare ev a w") auto
  with Some tokenInteractive_world(2) [OF assms] have eq: "w' = w1" by simp
  have d: "length (entropy w) < 8 \<or> 8 \<le> length (entropy w)" by arith
  have cases: "heap w1 = heap w \<or> (\<exists>p addr. Config a = Some p \<and> net_Listen ev = Inr addr \<and>
      8 \<le> length (entropy w) \<and>
      heap w1 = (heap w)(p := (heap w p)\<lparr>RedirectURL :=
        ''http://'' @ addr @ ''/'' @ hex_EncodeToString (take 8 (entropy w))\<rparr>))"
    using p
    by (auto simp: prepare_def randhex_def Let_def split: if_splits sum.splits option.splits)
  from prepare_writes(1) [OF p, of addr p] prepare_writes(2) [OF p, of e] prepare_writes(3) [OF p]
    eq Some cases
  show ?thesis by auto
qed

theorem tokenInteractive_frame_witness:
  "tokenInteractive (env0 [Incoming cb_denied]) (a0 (env0 [])) w0 =
     (Return (None, Some (ErrorString ''OAuth server returned error: access_denied'')), w0_bound,
      [NetListen ''127.0.0.1:34567'', ServeStarted, Shown ''http://127.0.0.1:34567/0001020304050607'',
       Replied (HttpOK success_page),
       Received \<lparr>code = [], err = Some (ErrorString ''OAuth server returned error: access_denied'')\<rparr>,
       ServerShutdown, LnClose]) \<and>
   RedirectURL (heap w0 0) = [] \<and>
   heap w0_bound = (heap w0)(0 := (heap w0 0)\<lparr>RedirectURL :=
     ''http://'' @ ''127.0.0.1:34567'' @ ''/'' @ hex_EncodeToString (take 8 (entropy w0))\<rparr>) \<and>
   RedirectURL (heap w0_bound 0) = ''http://127.0.0.1:34567/0001020304050607'' \<and>
   files w0_bound = files w0 \<and> heap w0_bound 1 = heap w0 1"
proof -
  have h: "ShowURL (a0 (env0 [])) = Some PrintURL \<and> 8 \<le> length (entropy w0) \<and>
      net_Listen (env0 [Incoming cb_denied]) = Inr ''127.0.0.1:34567'' \<and>
      Config (a0 (env0 [])) = Some 0"
    by (simp add: scenario_defs)
  have n: "Config (a0 (env0 [])) \<noteq> Some 1" by (simp add: a0_def)
  have r: "RedirectURL (heap w0 0) = []" by (simp add: scenario_defs)
  have u: "RedirectURL (heap w0_bound 0) = ''http://127.0.0.1:34567/0001020304050607''"
    by (simp add: scenario_defs)
  note t = tokenInteractive_frame [OF run_denied [of "env0 []"], of 1 0 PrintURL "''127.0.0.1:34567''" ErrNotExist]
  from t h have a: "heap w0_bound = (heap w0)(0 := (heap w0 0)\<lparr>RedirectURL :=
     ''http://'' @ ''127.0.0.1:34567'' @ ''/'' @ hex_EncodeToString (take 8 (entropy w0))\<rparr>)"
    by blast
  from t n have b: "files w0_bound = files w0 \<and> heap w0_bound 1 = heap w0 1" by blast
  from a b r u run_denied [of "env0 []"] show ?thesis by blast
qed

text \<open>
  C6. In a prepared flow, a request on the secret path whose query has no \<open>state\<close>
  parameter is answered with a redirect (302) to the authorization URL built by
  \<open>AuthCodeURL\<close> from the patched configuration and the state. The channel is left
  as it was, and waiting with that request in front is waiting without it, but for the
  reply: no result is produced and the flow is not concluded.
\<close>

theorem no_state_redirects:
  assumes "prepare ev a w = (Inr fl, w1, tr0)" and "URL_Path r = path fl"
    and "\<not> present r ''state''"
  shows "handler fl r ch = (HttpRedirect 302 (AuthCodeURL ev (heap w1 (cfg fl)) (state fl)), ch) \<and>
    await (handler fl) ch (Incoming r # es) =
      (case await (handler fl) ch es of
         (sel, tr, rest) \<Rightarrow>
           (sel, Replied (HttpRedirect 302 (AuthCodeURL ev (heap w1 (cfg fl)) (state fl))) # tr, rest))"
proof -
  from assms(3) have "Values_Get (URL_Query r) ''state'' = []"
    by (simp add: present_def Values_Get_absent)
  with assms(2) prepare_Inr(5) [OF assms(1)]
  have h: "handler fl r ch = (HttpRedirect 302 (AuthCodeURL ev (heap w1 (cfg fl)) (state fl)), ch)"
    by (simp add: handler_def)
  then show ?thesis by (simp split: prod.splits)
qed

theorem no_state_redirects_witness:
  "handler fl0 cb_probe None =
     (HttpRedirect 302 ''https://provider.example/auth?access_type=offline&client_id=id&redirect_uri=http://127.0.0.1:34567/0001020304050607&response_type=code&state=08090a0b0c0d0e0f'', None) \<and>
   await (handler fl0) None [Incoming cb_probe] =
     (Stuck, [Replied (HttpRedirect 302 ''https://provider.example/auth?access_type=offline&client_id=id&redirect_uri=http://127.0.0.1:34567/0001020304050607&response_type=code&state=08090a0b0c0d0e0f'')], None, [])"
  using no_state_redirects [OF prepare_scenario [of "[]" "env0 []"], of cb_probe None "[]"]
  by (simp add: scenario_defs present_def)

text \<open>
  C5, as amended. A request on the secret path whose \<open>state\<close> value is not empty
  and differs from the expected state is answered with 412 (precondition failed); the
  channel is left as it was, waiting with that request in front is waiting without it
  but for the reply, and a concluding request that follows it is still received. A
  request on the secret path whose \<open>state\<close> parameter is present with an empty value
  is answered like one without the parameter: with the redirect (302) to the
  authorization URL, the channel left as it was.
\<close>

theorem bad_state_rejected:
  assumes "URL_Path r = path fl" and "Values_Get (URL_Query r) ''state'' \<noteq> []"
    and "Values_Get (URL_Query r) ''state'' \<noteq> state fl"
  shows "handler fl r ch = (HttpError 412 ''bad state'', ch) \<and>
    await (handler fl) ch (Incoming r # es) =
      (case await (handler fl) ch es of
         (sel, tr, rest) \<Rightarrow> (sel, Replied (HttpError 412 ''bad state'') # tr, rest)) \<and>
    (state fl \<noteq> [] \<and> concluding fl r' \<and> list_all not_done post \<longrightarrow>
       fst (await (handler fl) None (Incoming r # Incoming r' # post)) = Recv (callback_resp r')) \<and>
    (prepare ev a w = (Inr fl, w1, tr0) \<and> URL_Path r2 = path fl \<and>
     map_of (URL_Query r2) ''state'' = Some [] \<longrightarrow>
       present r2 ''state'' \<and>
       handler fl r2 ch = (HttpRedirect 302 (AuthCodeURL ev (heap w1 (cfg fl)) (state fl)), ch))"
proof -
  from assms have h: "handler fl r ch = (HttpError 412 ''bad state'', ch)" for ch
    by (simp add: handler_def)
  have l: "fst (await (handler fl) None (Incoming r # Incoming r' # post)) = Recv (callback_resp r')"
    if "state fl \<noteq> []" "concluding fl r'" "list_all not_done post"
  proof -
    from assms(3) have "list_all (quiet fl) [Incoming r]" by (simp add: concluding_def)
    from await_first [OF that(1,2,3) this] show ?thesis by auto
  qed
  have e: "present r2 ''state'' \<and>
       handler fl r2 ch = (HttpRedirect 302 (AuthCodeURL ev (heap w1 (cfg fl)) (state fl)), ch)"
    if p: "prepare ev a w = (Inr fl, w1, tr0)" and u: "URL_Path r2 = path fl"
      and m: "map_of (URL_Query r2) ''state'' = Some []"
  proof -
    from m have v: "Values_Get (URL_Query r2) ''state'' = []" by (simp add: Values_Get_def)
    from m have "''state'' \<in> fst ` set (URL_Query r2)"
      by (metis map_of_eq_None_iff option.distinct(1))
    then have "present r2 ''state''" by (simp add: present_def)
    with handler_empty_state [OF u v, of ch] prepare_Inr(5) [OF p] show ?thesis by simp
  qed
  from h l e show ?thesis by (simp split: prod.splits)
qed

theorem bad_state_rejected_witness:
  "handler fl0 cb_bad_state None = (HttpError 412 ''bad state'', None) \<and>
   await (handler fl0) None [Incoming cb_bad_state] = (Stuck, [Replied (HttpError 412 ''bad state'')], None, []) \<and>
   fst (await (handler fl0) None [Incoming cb_bad_state, Incoming cb_code]) = Recv \<lparr>code = ''ABC123'', err = None\<rparr> \<and>
   handler fl0 cb_empty_state None =
     (HttpRedirect 302 (AuthCodeURL (env0 []) (heap w0_bound (cfg fl0)) (state fl0)), None)"
proof -
  have h1: "URL_Path cb_bad_state = path fl0" by (simp add: scenario_defs)
  have h2: "Values_Get (URL_Query cb_bad_state) ''state'' \<noteq> []"
    by (simp add: scenario_defs Values_Get_def)
  have h3: "Values_Get (URL_Query cb_bad_state) ''state'' \<noteq> state fl0"
    by (simp add: scenario_defs Values_Get_def)
  have h4: "state fl0 \<noteq> [] \<and> concluding fl0 cb_code \<and> list_all not_done []"
    by (simp add: scenario_defs Values_Get_def concluding_def)
  have h5: "callback_resp cb_code = \<lparr>code = ''ABC123'', err = None\<rparr>"
    by (simp add: scenario_defs Values_Get_def callback_resp_def)
  have h6: "prepare (env0 []) (a0 (env0 [])) w0 =
      (Inr fl0, w0_bound, [NetListen ''127.0.0.1:34567'', ServeStarted]) \<and>
      URL_Path cb_empty_state = path fl0 \<and> map_of (URL_Query cb_empty_state) ''state'' = Some []"
    using prepare_scenario [of "[]" "env0 []"] by (simp add: scenario_defs)
  note t = bad_state_rejected [OF h1 h2 h3, of None "[]" cb_code "[]" "env0 []" "a0 (env0 [])" w0
      w0_bound "[NetListen ''127.0.0.1:34567'', ServeStarted]" cb_empty_state]
  from t have a: "handler fl0 cb_bad_state None = (HttpError 412 ''bad state'', None)"
    by blast
  from t have "await (handler fl0) None [Incoming cb_bad_state] =
      (case await (handler fl0) None [] of
         (sel, tr, rest) \<Rightarrow> (sel, Replied (HttpError 412 ''bad state'') # tr, rest))"
    by blast
  then have b: "await (handler fl0) None [Incoming cb_bad_state] =
      (Stuck, [Replied (HttpError 412 ''bad state'')], None, [])"
    by simp
  from t h4 h5
  have c: "fst (await (handler fl0) None [Incoming cb_bad_state, Incoming cb_code]) =
      Recv \<lparr>code = ''ABC123'', err = None\<rparr>"
    by metis
  from t h6 have d: "handler fl0 cb_empty_state None =
     (HttpRedirect 302 (AuthCodeURL (env0 []) (heap w0_bound (cfg fl0)) (state fl0)), None)"
    by blast
  from a b c d show ?thesis by blast
qed

text \<open>
  C5 as stated fails for a \<open>state\<close> parameter that is present with an empty
  value: it differs from the expected state, yet \<open>Query().Get\<close> cannot tell it from
  a missing one, and the handler answers with the redirect (302), not with 412.
\<close>

theorem empty_state_counterexample:
  "prepare (env0 []) (a0 (env0 [])) w0 =
     (Inr fl0, w0_bound, [NetListen ''127.0.0.1:34567'', ServeStarted]) \<and>
   URL_Path cb_empty_state = path fl0 \<and>
   present cb_empty_state ''state'' \<and>
   Values_Get (URL_Query cb_empty_state) ''state'' \<noteq> state fl0 \<and>
   handler fl0 cb_empty_state None = (HttpRedirect 302 (startURL fl0), None) \<and>
   handler fl0 cb_empty_state None \<noteq> (HttpError 412 ''bad state'', None)"
  using prepare_scenario [of "[]" "env0 []"]
  by (simp add: scenario_defs present_def Values_Get_def handler_def)

text \<open>
  C4, as amended. For a request on the secret path with the expected state, the
  handler sends the result computed from the values of \<open>error\<close> and \<open>code\<close>.
  When such a request is the first that concludes the flow and the orchestrator is not
  cancelled: a non-empty \<open>error\<close> value makes the flow return that error without
  any exchange; otherwise a non-empty \<open>code\<close> value is exchanged, once, and the flow
  returns what the exchange returns; with both values empty the flow returns the
  "invalid response" error without any exchange.
\<close>

theorem callback_result_by_parameter:
  assumes "ShowURL a = Some shw" and "prepare ev a w = (Inr fl, w1, tr0)"
    and "shw (RedirectURL (heap w1 (cfg fl))) = None"
    and "incoming ev = pre @ Incoming r # post"
    and "list_all (quiet fl) pre" and "list_all not_done post"
    and "URL_Path r = path fl" and "Values_Get (URL_Query r) ''state'' = state fl"
    and "tokenInteractive ev a w = (out, w', tr)"
  shows "handler fl r ch = (HttpOK success_page, try_send ch (callback_resp r)) \<and>
    (Values_Get (URL_Query r) ''error'' \<noteq> [] \<longrightarrow>
       deliveries tr = [\<lparr>code = [], err = Some (ErrorString
          (''OAuth server returned error: '' @ Values_Get (URL_Query r) ''error''))\<rparr>] \<and>
       out = Return (None, Some (ErrorString
          (''OAuth server returned error: '' @ Values_Get (URL_Query r) ''error''))) \<and>
       exchanges tr = []) \<and>
    (Values_Get (URL_Query r) ''error'' = [] \<and> Values_Get (URL_Query r) ''code'' \<noteq> [] \<longrightarrow>
       deliveries tr = [\<lparr>code = Values_Get (URL_Query r) ''code'', err = None\<rparr>] \<and>
       out = Return (Exchange ev (heap w1 (cfg fl)) (Values_Get (URL_Query r) ''code'')) \<and>
       exchanges tr = [Values_Get (URL_Query r) ''code'']) \<and>
    (Values_Get (URL_Query r) ''error'' = [] \<and> Values_Get (URL_Query r) ''code'' = [] \<longrightarrow>
       deliveries tr = [\<lparr>code = [], err = Some (ErrorString
          ''OAuth server returned invalid response, no code or error'')\<rparr>] \<and>
       out = Return (None, Some (ErrorString
          ''OAuth server returned invalid response, no code or error'')) \<and>
       exchanges tr = [])"
proof -
  from assms(7,8) have c: "concluding fl r" by (simp add: concluding_def)
  from prepare_state_length [OF assms(2)] have ne: "state fl \<noteq> []" by auto
  from tokenInteractive_first [OF assms(1,2,3,4,5) c assms(6)] assms(9)
  have o: "out = (case err (callback_resp r) of
          Some e \<Rightarrow> Return (None, Some e)
        | None \<Rightarrow> Return (Exchange ev (heap w1 (cfg fl)) (code (callback_resp r))))"
    and d: "deliveries tr = [callback_resp r]"
    and x: "exchanges tr = (case err (callback_resp r) of Some e \<Rightarrow> [] | None \<Rightarrow> [code (callback_resp r)])"
    by auto
  from handler_concluding [OF c ne]
  have h: "handler fl r ch = (HttpOK success_page, try_send ch (callback_resp r))" .
  from o d x h show ?thesis
    by (simp add: callback_resp_def Let_def)
qed

theorem callback_result_by_parameter_witness:
  "deliveries
     [NetListen ''127.0.0.1:34567'', ServeStarted, Shown ''http://127.0.0.1:34567/0001020304050607'',
      Replied (HttpOK success_page),
      Received \<lparr>code = [], err = Some (ErrorString ''OAuth server returned error: access_denied'')\<rparr>,
      ServerShutdown, LnClose] =
     [\<lparr>code = [], err = Some (ErrorString ''OAuth server returned error: access_denied'')\<rparr>] \<and>
   exchanges
     [NetListen ''127.0.0.1:34567'', ServeStarted, Shown ''http://127.0.0.1:34567/0001020304050607'',
      Replied (HttpOK success_page), Received \<lparr>code = ''ABC123'', err = None\<rparr>,
      Exchanged ''ABC123'', ServerShutdown, LnClose] = [''ABC123''] \<and>
   Return (Some tok0, None) = Return (Exchange (env0 [Incoming cb_code]) (heap w0_bound 0) ''ABC123'') \<and>
   handler fl0 cb_state_only None =
     (HttpOK success_page, Some \<lparr>code = [], err = Some (ErrorString
        ''OAuth server returned invalid response, no code or error'')\<rparr>)"
proof -
  have s: "ShowURL (a0 (env0 [])) = Some PrintURL" by (simp add: a0_def)
  have u: "PrintURL (RedirectURL (heap w0_bound (cfg fl0))) = None" by (simp add: PrintURL_def)
  have q: "list_all (quiet fl0) []" "list_all not_done []" by simp_all
  have i: "incoming (env0 [Incoming cb]) = [] @ Incoming cb # []" for cb by (simp add: env0_def)
  have p: "URL_Path cb_denied = path fl0" "URL_Path cb_code = path fl0"
    "URL_Path cb_state_only = path fl0"
    by (simp_all add: scenario_defs)
  have g: "Values_Get (URL_Query cb_denied) ''state'' = state fl0"
    "Values_Get (URL_Query cb_code) ''state'' = state fl0"
    "Values_Get (URL_Query cb_state_only) ''state'' = state fl0"
    by (simp_all add: scenario_defs Values_Get_def)
  have v: "Values_Get (URL_Query cb_denied) ''error'' = ''access_denied''"
    "Values_Get (URL_Query cb_code) ''error'' = []"
    "Values_Get (URL_Query cb_code) ''code'' = ''ABC123''"
    "Values_Get (URL_Query cb_state_only) ''error'' = []"
    "Values_Get (URL_Query cb_state_only) ''code'' = []"
    by (simp_all add: scenario_defs Values_Get_def)
  have r: "callback_resp cb_state_only = \<lparr>code = [], err = Some (ErrorString
        ''OAuth server returned invalid response, no code or error'')\<rparr>"
    by (simp add: callback_resp_def v)
  note t1 = callback_result_by_parameter [OF s prepare_scenario u i q p(1) g(1) run_denied, of None]
  note t2 = callback_result_by_parameter [OF s prepare_scenario u i q p(2) g(2) run_code, of None]
  note t3 = callback_result_by_parameter [OF s prepare_scenario u i q p(3) g(3) run_neither, of None]
  from t1 v have a: "deliveries
     [NetListen ''127.0.0.1:34567'', ServeStarted, Shown ''http://127.0.0.1:34567/0001020304050607'',
      Replied (HttpOK success_page),
      Received \<lparr>code = [], err = Some (ErrorString ''OAuth server returned error: access_denied'')\<rparr>,
      ServerShutdown, LnClose] =
     [\<lparr>code = [], err = Some (ErrorString ''OAuth server returned error: access_denied'')\<rparr>]"
    by simp
  from t2 v have b: "exchanges
     [NetListen ''127.0.0.1:34567'', ServeStarted, Shown ''http://127.0.0.1:34567/0001020304050607'',
      Replied (HttpOK success_page), Received \<lparr>code = ''ABC123'', err = None\<rparr>,
      Exchanged ''ABC123'', ServerShutdown, LnClose] = [''ABC123''] \<and>
   Return (Some tok0, None) = Return (Exchange (env0 [Incoming cb_code]) (heap w0_bound 0) ''ABC123'')"
    by (simp add: fl0_def)
  from t3 r have c: "handler fl0 cb_state_only None =
     (HttpOK success_page, Some \<lparr>code = [], err = Some (ErrorString
        ''OAuth server returned invalid response, no code or error'')\<rparr>)"
    by (simp add: try_send_def)
  from a b c show ?thesis by blast
qed

text \<open>
  C4 as stated fails for an \<open>error\<close> parameter that is present with an empty
  value: the handler treats it as missing, the code of the same request is delivered and
  exchanged, and the flow succeeds.
\<close>

theorem empty_error_counterexample:
  "URL_Path cb_empty_error = path fl0 \<and>
   Values_Get (URL_Query cb_empty_error) ''state'' = state fl0 \<and>
   present cb_empty_error ''error'' \<and>
   tokenInteractive (env0 [Incoming cb_empty_error]) (a0 (env0 [])) w0 =
     (Return (Some tok0, None), w0_bound,
      [NetListen ''127.0.0.1:34567'', ServeStarted, Shown ''http://127.0.0.1:34567/0001020304050607'',
       Replied (HttpOK success_page), Received \<lparr>code = ''ABC123'', err = None\<rparr>,
       Exchanged ''ABC123'', ServerShutdown, LnClose])"
  by (simp add: scenario_defs run_defs)

text \<open>
  C2, as amended. In every run the orchestrator receives at most one value from the
  channel and exchanges at most one code. Let ShowURL have returned without error, and
  let a request with matching path and expected state arrive when nothing before it
  has concluded the flow (only other requests that do not conclude, no return of
  Serve) and with the cancellation never selected, before or after. Then the one value
  received is the result of that request, whatever follows it; and when the request has
  an empty \<open>error\<close> value and a non-empty code, the flow exchanges exactly that
  code, exactly once.
\<close>

theorem at_most_one_delivery:
  assumes "tokenInteractive ev a w = (out, w', tr)"
  shows "length (deliveries tr) \<le> 1 \<and> length (exchanges tr) \<le> 1 \<and>
    (ShowURL a = Some shw \<and> prepare ev a w = (Inr fl, w1, tr0) \<and>
     shw (RedirectURL (heap w1 (cfg fl))) = None \<and>
     incoming ev = pre @ Incoming r # post \<and>
     list_all (quiet fl) pre \<and> concluding fl r \<and> list_all not_done post \<longrightarrow>
       deliveries tr = [callback_resp r] \<and>
       (Values_Get (URL_Query r) ''error'' = [] \<and> Values_Get (URL_Query r) ''code'' = c \<and> c \<noteq> [] \<longrightarrow>
          deliveries tr = [\<lparr>code = c, err = None\<rparr>] \<and>
          out = Return (Exchange ev (heap w1 (cfg fl)) c) \<and>
          exchanges tr = [c]))"
proof -
  have third: "ShowURL a = Some shw \<and> prepare ev a w = (Inr fl, w1, tr0) \<and>
     shw (RedirectURL (heap w1 (cfg fl))) = None \<and>
     incoming ev = pre @ Incoming r # post \<and>
     list_all (quiet fl) pre \<and> concluding fl r \<and> list_all not_done post \<longrightarrow>
       deliveries tr = [callback_resp r] \<and>
       (Values_Get (URL_Query r) ''error'' = [] \<and> Values_Get (URL_Query r) ''code'' = c \<and> c \<noteq> [] \<longrightarrow>
          deliveries tr = [\<lparr>code = c, err = None\<rparr>] \<and>
          out = Return (Exchange ev (heap w1 (cfg fl)) c) \<and>
          exchanges tr = [c])"
  proof
    assume "ShowURL a = Some shw \<and> prepare ev a w = (Inr fl, w1, tr0) \<and>
     shw (RedirectURL (heap w1 (cfg fl))) = None \<and>
     incoming ev = pre @ Incoming r # post \<and>
     list_all (quiet fl) pre \<and> concluding fl r \<and> list_all not_done post"
    then have h: "ShowURL a = Some shw" "prepare ev a w = (Inr fl, w1, tr0)"
      "shw (RedirectURL (heap w1 (cfg fl))) = None"
      "incoming ev = pre @ Incoming r # post"
      "list_all (quiet fl) pre" "concluding fl r" "list_all not_done post"
      by simp_all
    from tokenInteractive_first [OF h] assms
    have o: "out = (case err (callback_resp r) of
          Some e \<Rightarrow> Return (None, Some e)
        | None \<Rightarrow> Return (Exchange ev (heap w1 (cfg fl)) (code (callback_resp r))))"
      and d: "deliveries tr = [callback_resp r]"
      and x: "exchanges tr = (case err (callback_resp r) of Some e \<Rightarrow> [] | None \<Rightarrow> [code (callback_resp r)])"
      by auto
    from o d x show "deliveries tr = [callback_resp r] \<and>
       (Values_Get (URL_Query r) ''error'' = [] \<and> Values_Get (URL_Query r) ''code'' = c \<and> c \<noteq> [] \<longrightarrow>
          deliveries tr = [\<lparr>code = c, err = None\<rparr>] \<and>
          out = Return (Exchange ev (heap w1 (cfg fl)) c) \<and>
          exchanges tr = [c])"
      by (auto simp: callback_resp_def)
  qed
  show ?thesis
    by (rule conjI, rule tokenInteractive_counts(1) [OF assms],
        rule conjI, rule tokenInteractive_counts(2) [OF assms], rule third)
qed

theorem at_most_one_delivery_witness:
  "length (deliveries
     [NetListen ''127.0.0.1:34567'', ServeStarted, Shown ''http://127.0.0.1:34567/0001020304050607'',
       Replied (HttpError 412 ''bad state''), Replied (HttpOK success_page),
       Replied (HttpOK success_page), Received \<lparr>code = ''ABC123'', err = None\<rparr>,
       Exchanged ''ABC123'', Replied (HttpOK success_page), ServerShutdown, LnClose]) \<le> 1 \<and>
   exchanges
     [NetListen ''127.0.0.1:34567'', ServeStarted, Shown ''http://127.0.0.1:34567/0001020304050607'',
       Replied (HttpError 412 ''bad state''), Replied (HttpOK success_page),
       Replied (HttpOK success_page), Received \<lparr>code = ''ABC123'', err = None\<rparr>,
       Exchanged ''ABC123'', Replied (HttpOK success_page), ServerShutdown, LnClose] = [''ABC123''] \<and>
   Return (Some tok0, None) =
     Return (Exchange (env0 [Incoming cb_bad_state, Incoming cb_code, Incoming cb_denied, SelectRecv,
        Incoming cb_code]) (heap w0_bound (cfg fl0)) ''ABC123'')"
proof -
  have h: "ShowURL (a0 (env0 [])) = Some PrintURL \<and>
     prepare (env0 [Incoming cb_bad_state, Incoming cb_code, Incoming cb_denied, SelectRecv,
        Incoming cb_code]) (a0 (env0 [])) w0 =
       (Inr fl0, w0_bound, [NetListen ''127.0.0.1:34567'', ServeStarted]) \<and>
     PrintURL (RedirectURL (heap w0_bound (cfg fl0))) = None \<and>
     incoming (env0 [Incoming cb_bad_state, Incoming cb_code, Incoming cb_denied, SelectRecv,
        Incoming cb_code]) =
       [Incoming cb_bad_state] @ Incoming cb_code # [Incoming cb_denied, SelectRecv, Incoming cb_code] \<and>
     list_all (quiet fl0) [Incoming cb_bad_state] \<and> concluding fl0 cb_code \<and>
     list_all not_done [Incoming cb_denied, SelectRecv, Incoming cb_code]"
    using prepare_scenario
    by (simp add: scenario_defs concluding_def Values_Get_def)
  have v: "Values_Get (URL_Query cb_code) ''error'' = [] \<and>
     Values_Get (URL_Query cb_code) ''code'' = ''ABC123'' \<and> ''ABC123'' \<noteq> []"
    by (simp add: scenario_defs Values_Get_def)
  from at_most_one_delivery [OF run_duplicates [of "env0 []"], of PrintURL fl0 w0_bound
      "[NetListen ''127.0.0.1:34567'', ServeStarted]" "[Incoming cb_bad_state]" cb_code
      "[Incoming cb_denied, SelectRecv, Incoming cb_code]" "''ABC123''"] h v
  show ?thesis by blast
qed

text \<open>
  C2 as stated fails for a first concluding request that carries a code together with
  a non-empty \<open>error\<close>: the flow concludes with the error, and the code is never
  exchanged.
\<close>

theorem error_and_code_counterexample:
  "URL_Path cb_both = path fl0 \<and>
   Values_Get (URL_Query cb_both) ''state'' = state fl0 \<and>
   Values_Get (URL_Query cb_both) ''code'' = ''ABC123'' \<and>
   tokenInteractive (env0 [Incoming cb_both]) (a0 (env0 [])) w0 =
     (Return (None, Some (ErrorString ''OAuth server returned error: access_denied'')), w0_bound,
      [NetListen ''127.0.0.1:34567'', ServeStarted, Shown ''http://127.0.0.1:34567/0001020304050607'',
       Replied (HttpOK success_page),
       Received \<lparr>code = [], err = Some (ErrorString ''OAuth server returned error: access_denied'')\<rparr>,
       ServerShutdown, LnClose])"
  by (simp add: scenario_defs run_defs)




text \<open>
  C1. With a file store configured, an empty cache and a successful interactive flow,
  TokenSource returns a token source and leaves the file system as it was: reading the
  store afterwards still finds nothing, although writing the token to that store and
  reading it back would have returned it. TokenSource never calls \<open>Write\<close>.
\<close>

theorem TokenSource_does_not_persist:
  "Storage (a0 (env0 [])) = Some (FileStore (env0 []) ''oauth.json'') \<and>
   Read (FileStore (env0 []) ''oauth.json'') w0 = (None, None) \<and>
   TokenSource (env0 [Incoming cb_code]) (a0 (env0 [])) w0 =
     (Return (Some (Config_TokenSource (Some 0) tok0), None), w0_bound,
      [NetListen ''127.0.0.1:34567'', ServeStarted, Shown ''http://127.0.0.1:34567/0001020304050607'',
       Replied (HttpOK success_page), Received \<lparr>code = ''ABC123'', err = None\<rparr>,
       Exchanged ''ABC123'', ServerShutdown, LnClose]) \<and>
   files w0_bound = Map.empty \<and>
   Read (FileStore (env0 []) ''oauth.json'') w0_bound = (None, None) \<and>
   Read (FileStore (env0 []) ''oauth.json'')
     (snd (Write (FileStore (env0 []) ''oauth.json'') tok0 w0_bound)) = (Some tok0, None)"
  by (simp add: scenario_defs run_defs fileStore_Write_def os_MkdirAll_def os_WriteFile_def
      filepath_Dir_def)

end
